theory Spec2Isabelle
  imports Complex_Main
begin

section \<open>Data model\<close>

text \<open>
  The storefront keeps its cart in \<open>src/context/CartContext.tsx\<close> (the provider every page
  uses) and, a second time, in \<open>src/components/Cart.tsx\<close> (a page with its own copy of the
  list). Both work on rows of the table \<open>cart_items\<close> joined with a product snapshot.

  JavaScript numbers are modelled by exact rationals for prices and by integers for
  quantities (the columns are \<open>DECIMAL(10, 2)\<close> and \<open>INTEGER\<close>). In the sums of the cart
  the rounding of IEEE doubles is not modelled; in the discount percentage, where it
  decides the result, it is. A field that is \<open>undefined\<close> or \<open>null\<close> at run time is \<open>None\<close>.
\<close>

record Product =
  id_product :: nat
  name :: string
  price :: rat
  discount_price :: "rat option"
  image_url :: string
  stock_quantity :: int

text \<open>
  \<open>CartItem\<close> of both files. The interface of \<open>Cart.tsx\<close> also lists \<open>user_id\<close> and
  \<open>created_at\<close>, which no function below reads. The interfaces declare \<open>product\<close> as always
  there, but the join yields \<open>null\<close> for a row whose product cannot be read, and
  \<open>CartContext.tsx\<close> tests for it.
\<close>

record CartItem =
  id_item :: nat
  product_id :: nat
  quantity :: int
  product :: "Product option"

text \<open>
  A row as \<open>fetchCartItems\<close> of the provider selects it: the joined product arrives under
  \<open>products\<close>, which the provider reads as an array and takes the first element of.
\<close>

record cart_items_row =
  id_row :: nat
  product_id_row :: nat
  quantity_row :: int
  products :: "Product list"

text \<open>What a function throws: the error object of the backend client, or \<open>new Error(msg)\<close>;
  \<open>TypeError\<close> is the reading of a property of \<open>null\<close>.\<close>

datatype thrown = PostgrestError string | Error string | TypeError

section \<open>The remote collaborator\<close>

text \<open>
  Every operation of the cart awaits calls of the backend client. The backend is outside
  the repository, so its answers are a parameter: a \<open>remote\<close> gives, for each request, the
  pair \<open>{data, error}\<close> (or just \<open>error\<close>) the client resolves to. The requests an operation
  issues are recorded in order, so that "no remote write" can be stated.
\<close>

type_synonym user_id = string

datatype request =
    SelectCartItems user_id
  | SelectProduct nat
  | InsertCartItem user_id nat int
  | UpdateCartItem user_id nat int
  | DeleteCartItem user_id nat
  | DeleteCart user_id
  | UpdateCartItemById nat int

record remote =
  select_cart_items :: "user_id \<Rightarrow> cart_items_row list option \<times> string option"
  select_product :: "nat \<Rightarrow> Product option \<times> string option"
  insert_cart_item :: "user_id \<Rightarrow> nat \<Rightarrow> int \<Rightarrow> CartItem option \<times> string option"
  update_cart_item :: "user_id \<Rightarrow> nat \<Rightarrow> int \<Rightarrow> string option"
  delete_cart_item :: "user_id \<Rightarrow> nat \<Rightarrow> string option"
  delete_cart :: "user_id \<Rightarrow> string option"
  update_cart_item_by_id :: "nat \<Rightarrow> int \<Rightarrow> string option"

text \<open>The error with which the remote answers a write request; a read is not a write.\<close>

fun write_error :: "remote \<Rightarrow> request \<Rightarrow> string option" where
  "write_error r (SelectCartItems u) = None"
| "write_error r (SelectProduct p) = None"
| "write_error r (InsertCartItem u p q) = snd (insert_cart_item r u p q)"
| "write_error r (UpdateCartItem u p q) = update_cart_item r u p q"
| "write_error r (DeleteCartItem u p) = delete_cart_item r u p"
| "write_error r (DeleteCart u) = delete_cart r u"
| "write_error r (UpdateCartItemById i q) = update_cart_item_by_id r i q"

section \<open>Pricing: \<open>CartContext.tsx\<close>\<close>

text \<open>
  The effect that recomputes \<open>cartCount\<close> and \<open>total\<close> whenever \<open>items\<close> changes
  (lines 47 to 60). \<open>Array.prototype.reduce\<close> with an initial value is \<open>foldl\<close>.
  The state variable \<open>total\<close> is \<open>total_cart\<close> here, \<open>total\<close> being a constant of HOL.
\<close>

definition cartCount :: "CartItem list \<Rightarrow> int" where
  "cartCount items = foldl (\<lambda>sum item. sum + quantity item) 0 items"

definition total_cart :: "CartItem list \<Rightarrow> rat" where
  "total_cart items =
     foldl (\<lambda>sum item.
        case product item of
          None \<Rightarrow> sum
        | Some p \<Rightarrow>
            let price' = (case discount_price p of Some d \<Rightarrow> d | None \<Rightarrow> price p)
            in sum + price' * of_int (quantity item)) 0 items"

section \<open>Pricing: \<open>Cart.tsx\<close>\<close>

text \<open>
  \<open>getItemPrice\<close> is \<open>item.product.discount_price || item.product.price\<close>: the left operand
  is taken when it is truthy, and the number \<open>0\<close> is falsy like \<open>undefined\<close> and \<open>null\<close>.
  Reading \<open>discount_price\<close> of a missing product throws.
\<close>

definition getItemPrice :: "CartItem \<Rightarrow> thrown + rat" where
  "getItemPrice item =
     (case product item of
        None \<Rightarrow> Inl TypeError
      | Some p \<Rightarrow>
          (case discount_price p of
             Some d \<Rightarrow> if d \<noteq> 0 then Inr d else Inr (price p)
           | None \<Rightarrow> Inr (price p)))"

text \<open>\<open>calculateSubtotal\<close>: the \<open>reduce\<close> over \<open>cartItems\<close>, stopped by the first throw.\<close>

fun calculateSubtotal_from :: "rat \<Rightarrow> CartItem list \<Rightarrow> thrown + rat" where
  "calculateSubtotal_from total' [] = Inr total'"
| "calculateSubtotal_from total' (item # rest) =
     (case getItemPrice item of
        Inl e \<Rightarrow> Inl e
      | Inr price' \<Rightarrow> calculateSubtotal_from (total' + price' * of_int (quantity item)) rest)"

definition calculateSubtotal :: "CartItem list \<Rightarrow> thrown + rat" where
  "calculateSubtotal cartItems = calculateSubtotal_from 0 cartItems"

section \<open>Discount percentage: \<open>Products.tsx\<close>\<close>

subsection \<open>Double-precision numbers\<close>













subsection \<open>\<open>calculateDiscount\<close>\<close>


section \<open>The cart store: \<open>CartContext.tsx\<close>\<close>

text \<open>
  The provider's state is \<open>items\<close> (with \<open>cartCount\<close> and \<open>total\<close> derived from it) and the
  signed-in \<open>user\<close>. An operation is a function of the remote, the user and the list; it
  returns what the caller sees (\<open>Inl\<close> what is thrown), the list afterwards, and the
  requests it sent. The list an operation changes is the \<open>prev\<close> of its
  \<open>setItems(prev => ...)\<close>, the state at that moment. Only \<open>addToCart\<close> also reads
  \<open>items\<close>, the list of the render that created the function.
\<close>

record outcome =
  result :: "thrown + unit"
  items_after :: "CartItem list"
  requests :: "request list"

text \<open>\<open>updateQuantity\<close> (lines 166 to 189).\<close>

definition updateQuantity ::
  "remote \<Rightarrow> user_id option \<Rightarrow> CartItem list \<Rightarrow> nat \<Rightarrow> int \<Rightarrow> outcome" where
  "updateQuantity r user items productId quantity' =
     (case user of
        None \<Rightarrow> \<lparr>result = Inr (), items_after = items, requests = []\<rparr>
      | Some u \<Rightarrow>
          if quantity' < 1 then \<lparr>result = Inr (), items_after = items, requests = []\<rparr>
          else
            (case update_cart_item r u productId quantity' of
               Some e \<Rightarrow>
                 \<lparr>result = Inl (PostgrestError e), items_after = items,
                  requests = [UpdateCartItem u productId quantity']\<rparr>
             | None \<Rightarrow>
                 \<lparr>result = Inr (),
                  items_after =
                    map (\<lambda>item. if product_id item = productId
                                then item\<lparr>quantity := quantity'\<rparr> else item) items,
                  requests = [UpdateCartItem u productId quantity']\<rparr>))"

text \<open>
  \<open>fetchCartItems\<close> (lines 62 to 93), which the effect on \<open>user\<close> calls for a signed-in
  user. An error is logged and not thrown again, and the list stays. Otherwise the list
  becomes the rows that have a product, in the order received; \<open>products[0]\<close> of an empty
  array is \<open>undefined\<close>.
\<close>

definition fetchCartItems :: "remote \<Rightarrow> user_id \<Rightarrow> CartItem list \<Rightarrow> outcome" where
  "fetchCartItems r u prev =
     (case select_cart_items r u of
        (data, Some e) \<Rightarrow>
          \<lparr>result = Inr (), items_after = prev, requests = [SelectCartItems u]\<rparr>
      | (data, None) \<Rightarrow>
          let transformedData =
                (case data of
                   None \<Rightarrow> []
                 | Some rows \<Rightarrow>
                     filter (\<lambda>item. product item \<noteq> None)
                       (map (\<lambda>row. \<lparr>id_item = id_row row, product_id = product_id_row row,
                                    quantity = quantity_row row,
                                    product = (case products row of
                                                 [] \<Rightarrow> None | p # ps \<Rightarrow> Some p)\<rparr>) rows))
          in \<lparr>result = Inr (), items_after = transformedData,
              requests = [SelectCartItems u]\<rparr>)"

text \<open>
  \<open>addToCart\<close> (lines 95 to 145). It looks for a line of the product in \<open>items\<close>, the list
  of its render, and appends to \<open>prev\<close>, the state when the insert has returned. When a
  line exists it awaits \<open>updateQuantity\<close>, and its own \<open>catch\<close> throws again what that call
  threw. The new line is the row the insert returned, with the product fetched before.
\<close>

definition addToCart_render ::
  "remote \<Rightarrow> user_id option \<Rightarrow> CartItem list \<Rightarrow> CartItem list \<Rightarrow> nat \<Rightarrow> int \<Rightarrow> outcome"
  where
  "addToCart_render r user items prev productId quantity' =
     (case user of
        None \<Rightarrow> \<lparr>result = Inr (), items_after = prev, requests = []\<rparr>
      | Some u \<Rightarrow>
          (case find (\<lambda>item. product_id item = productId) items of
             Some existingItem \<Rightarrow>
               updateQuantity r user prev productId (quantity existingItem + quantity')
           | None \<Rightarrow>
               (case select_product r productId of
                  (productData, productError) \<Rightarrow>
                    if productError \<noteq> None \<or> productData = None then
                      \<lparr>result = Inl (Error ''Product not found''), items_after = prev,
                       requests = [SelectProduct productId]\<rparr>
                    else
                      (case insert_cart_item r u productId quantity' of
                         (data, Some e) \<Rightarrow>
                           \<lparr>result = Inl (PostgrestError e), items_after = prev,
                            requests = [SelectProduct productId,
                                        InsertCartItem u productId quantity']\<rparr>
                       | (None, None) \<Rightarrow>
                           \<lparr>result = Inr (), items_after = prev,
                            requests = [SelectProduct productId,
                                        InsertCartItem u productId quantity']\<rparr>
                       | (Some row, None) \<Rightarrow>
                           \<lparr>result = Inr (),
                            items_after = prev @ [row\<lparr>product := productData\<rparr>],
                            requests = [SelectProduct productId,
                                        InsertCartItem u productId quantity']\<rparr>))))"

text \<open>
  \<open>addToCart\<close> called from a render that has seen the current state: the list it reads
  and the list it changes are the same. This is every call when operations run one after
  the other and the page is rendered again in between.
\<close>

definition addToCart ::
  "remote \<Rightarrow> user_id option \<Rightarrow> CartItem list \<Rightarrow> nat \<Rightarrow> int \<Rightarrow> outcome" where
  "addToCart r user items productId quantity' =
     addToCart_render r user items items productId quantity'"

text \<open>\<open>removeFromCart\<close> (lines 147 to 164).\<close>

definition removeFromCart ::
  "remote \<Rightarrow> user_id option \<Rightarrow> CartItem list \<Rightarrow> nat \<Rightarrow> outcome" where
  "removeFromCart r user items productId =
     (case user of
        None \<Rightarrow> \<lparr>result = Inr (), items_after = items, requests = []\<rparr>
      | Some u \<Rightarrow>
          (case delete_cart_item r u productId of
             Some e \<Rightarrow>
               \<lparr>result = Inl (PostgrestError e), items_after = items,
                requests = [DeleteCartItem u productId]\<rparr>
           | None \<Rightarrow>
               \<lparr>result = Inr (),
                items_after = filter (\<lambda>item. product_id item \<noteq> productId) items,
                requests = [DeleteCartItem u productId]\<rparr>))"

text \<open>\<open>clearCart\<close> (lines 191 to 207).\<close>

definition clearCart :: "remote \<Rightarrow> user_id option \<Rightarrow> CartItem list \<Rightarrow> outcome" where
  "clearCart r user items =
     (case user of
        None \<Rightarrow> \<lparr>result = Inr (), items_after = items, requests = []\<rparr>
      | Some u \<Rightarrow>
          (case delete_cart r u of
             Some e \<Rightarrow>
               \<lparr>result = Inl (PostgrestError e), items_after = items,
                requests = [DeleteCart u]\<rparr>
           | None \<Rightarrow> \<lparr>result = Inr (), items_after = [], requests = [DeleteCart u]\<rparr>))"

section \<open>The cart page: \<open>Cart.tsx\<close>\<close>

text \<open>
  The page holds its own state and addresses a line by the id of its row.
  Its \<open>updateQuantity\<close> (lines 66 to 93) catches every error and shows a message instead
  of throwing.
\<close>

record CartView =
  cartItems :: "CartItem list"
  loading :: bool
  error :: "string option"
  processing :: bool

definition Cart_updateQuantity ::
  "remote \<Rightarrow> CartView \<Rightarrow> nat \<Rightarrow> int \<Rightarrow> CartView \<times> request list" where
  "Cart_updateQuantity r s itemId newQuantity =
     (if newQuantity < 1 then (s, [])
      else
        (case update_cart_item_by_id r itemId newQuantity of
           Some e \<Rightarrow>
             (s\<lparr>error := Some ''Failed to update cart. Please try again.'',
                processing := False\<rparr>,
              [UpdateCartItemById itemId newQuantity])
         | None \<Rightarrow>
             (s\<lparr>cartItems :=
                  map (\<lambda>item. if id_item item = itemId
                              then item\<lparr>quantity := newQuantity\<rparr> else item) (cartItems s),
                processing := False\<rparr>,
              [UpdateCartItemById itemId newQuantity])))"

section \<open>Sample data\<close>

text \<open>A product, a cart line, and three remotes: one that carries out every request and
  returns the inserted row as it was sent, one whose requests to the cart all fail, and
  one whose table holds two rows for one product.\<close>

definition lamp :: Product where
  "lamp = \<lparr>id_product = 7, name = ''Lamp'', price = 10, discount_price = Some 8,
           image_url = ''lamp.png'', stock_quantity = 5\<rparr>"

definition ok_remote :: remote where
  "ok_remote =
     \<lparr>select_cart_items = (\<lambda>u. (Some [], None)),
      select_product = (\<lambda>p. (Some (lamp\<lparr>id_product := p\<rparr>), None)),
      insert_cart_item =
        (\<lambda>u p q. (Some \<lparr>id_item = 1, product_id = p, quantity = q, product = None\<rparr>, None)),
      update_cart_item = (\<lambda>u p q. None),
      delete_cart_item = (\<lambda>u p. None),
      delete_cart = (\<lambda>u. None),
      update_cart_item_by_id = (\<lambda>i q. None)\<rparr>"

definition offline_remote :: remote where
  "offline_remote =
     \<lparr>select_cart_items = (\<lambda>u. (None, Some ''Failed to fetch'')),
      select_product = (\<lambda>p. (Some (lamp\<lparr>id_product := p\<rparr>), None)),
      insert_cart_item = (\<lambda>u p q. (None, Some ''Failed to fetch'')),
      update_cart_item = (\<lambda>u p q. Some ''Failed to fetch''),
      delete_cart_item = (\<lambda>u p. Some ''Failed to fetch''),
      delete_cart = (\<lambda>u. Some ''Failed to fetch''),
      update_cart_item_by_id = (\<lambda>i q. Some ''Failed to fetch'')\<rparr>"

definition doubled_remote :: remote where
  "doubled_remote =
     ok_remote\<lparr>select_cart_items :=
       (\<lambda>u. (Some [\<lparr>id_row = 1, product_id_row = 7, quantity_row = 1, products = [lamp]\<rparr>,
                    \<lparr>id_row = 2, product_id_row = 7, quantity_row = 1, products = [lamp]\<rparr>],
              None))\<rparr>"

definition line :: "nat \<Rightarrow> nat \<Rightarrow> int \<Rightarrow> rat \<Rightarrow> rat option \<Rightarrow> CartItem" where
  "line i p q pr d =
     \<lparr>id_item = i, product_id = p, quantity = q,
      product = Some \<lparr>id_product = p, name = ''Item'', price = pr, discount_price = d,
                      image_url = ''item.png'', stock_quantity = 100\<rparr>\<rparr>"

section \<open>Invariants and conditions on the remote\<close>


definition one_line_per_product :: "CartItem list \<Rightarrow> bool" where
  "one_line_per_product items = distinct (map product_id items)"

text \<open>The remote returns the inserted row as it was sent: the row it hands back for the
  insert of \<open>addToCart\<close>, if any, has the product and the quantity of the request.\<close>

definition insert_echoes :: "remote \<Rightarrow> user_id option \<Rightarrow> nat \<Rightarrow> int \<Rightarrow> bool" where
  "insert_echoes r user p q =
     (case user of
        None \<Rightarrow> True
      | Some u \<Rightarrow>
          (case fst (insert_cart_item r u p q) of
             None \<Rightarrow> True
           | Some row \<Rightarrow> product_id row = p \<and> quantity row = q))"

text \<open>The rows the remote returns for the cart of a user, if any, are for pairwise
  different products.\<close>

definition rows_one_per_product :: "remote \<Rightarrow> user_id \<Rightarrow> bool" where
  "rows_one_per_product r u =
     (case fst (select_cart_items r u) of
        None \<Rightarrow> True
      | Some rows \<Rightarrow> distinct (map product_id_row rows))"

text \<open>A line on which both price rules pick the same price: its product is there and its
  discount price is not the number 0.\<close>

definition plainly_priced :: "CartItem \<Rightarrow> bool" where
  "plainly_priced item =
     (case product item of None \<Rightarrow> False | Some p \<Rightarrow> discount_price p \<noteq> Some 0)"

section \<open>Pricing aggregates\<close>

lemma foldl_quantity:
  "foldl (\<lambda>sum item. sum + quantity item) a items = a + sum_list (map quantity items)"
  by (induction items arbitrary: a) simp_all

lemma cartCount_sum: "cartCount items = sum_list (map quantity items)"
  by (simp add: cartCount_def foldl_quantity)

text \<open>
  Claim C9. On the empty list the aggregates are zero: the total of the provider, the
  subtotal of the cart page and the item count. On any list the item count is the sum of
  the quantities of the lines.
\<close>

theorem empty_cart_aggregates:
  "total_cart [] = 0 \<and> calculateSubtotal [] = Inr 0 \<and> cartCount [] = 0
   \<and> cartCount items = sum_list (map quantity items)"
  by (simp add: total_cart_def calculateSubtotal_def cartCount_sum)

text \<open>What the provider charges for a single line with a product: the discount price
  whenever there is one, the number 0 included, times the quantity.\<close>

lemma total_cart_single:
  "product item = Some p \<Longrightarrow>
   total_cart [item] =
     (case discount_price p of Some d \<Rightarrow> d | None \<Rightarrow> price p) * of_int (quantity item)"
  by (simp add: total_cart_def)

text \<open>
  Claim C1. The effective unit price is the discount price when that is present and not
  null, and the list price otherwise. The provider computes it so (\<open>total_cart_single\<close>);
  \<open>getItemPrice\<close> of the cart page does not: for a line of quantity 1 with list price 10
  and discount price 0, which is present and not null, it answers the list price 10, and
  the page's subtotal is 10 where the provider's total is 0.
\<close>

theorem getItemPrice_zero_discount:
  "getItemPrice (line 1 7 1 10 (Some 0)) = Inr 10
   \<and> calculateSubtotal [line 1 7 1 10 (Some 0)] = Inr 10
   \<and> total_cart [line 1 7 1 10 (Some 0)] = 0"
  by (simp add: getItemPrice_def line_def total_cart_def calculateSubtotal_def)

subsection \<open>The two subtotals\<close>

lemma calculateSubtotal_from_foldl:
  "list_all plainly_priced items \<Longrightarrow>
   calculateSubtotal_from a items =
     Inr (foldl (\<lambda>sum item.
        case product item of
          None \<Rightarrow> sum
        | Some p \<Rightarrow>
            let price' = (case discount_price p of Some d \<Rightarrow> d | None \<Rightarrow> price p)
            in sum + price' * of_int (quantity item)) a items)"
proof (induction items arbitrary: a)
  case Nil
  then show ?case by simp
next
  case (Cons item rest)
  from Cons.prems obtain p where p: "product item = Some p" "discount_price p \<noteq> Some 0"
    by (auto simp: plainly_priced_def split: option.splits)
  from Cons.prems have rest: "list_all plainly_priced rest" by simp
  from p have "getItemPrice item = Inr (case discount_price p of Some d \<Rightarrow> d | None \<Rightarrow> price p)"
    by (auto simp: getItemPrice_def split: option.splits)
  with p Cons.IH[OF rest] show ?case by simp
qed

text \<open>
  Claim C10, as stated: the total of the provider equals the subtotal of the cart page on
  every list of lines. It fails on a line whose discount price is 0 (total 0, subtotal
  10) and on a line without product, which the provider skips and on which the page
  throws.
\<close>

theorem subtotals_differ:
  "calculateSubtotal [line 1 7 1 10 (Some 0)] \<noteq> Inr (total_cart [line 1 7 1 10 (Some 0)])
   \<and> calculateSubtotal [\<lparr>id_item = 1, product_id = 7, quantity = 1, product = None\<rparr>]
       \<noteq> Inr (total_cart [\<lparr>id_item = 1, product_id = 7, quantity = 1, product = None\<rparr>])"
  by (simp add: getItemPrice_def line_def total_cart_def calculateSubtotal_def)

text \<open>
  Claim C10, amended. On every list of lines each of which has its product and a discount
  price that is not 0, the cart page computes a subtotal, and it is the total of the
  provider.
\<close>

theorem subtotals_agree:
  "list_all plainly_priced items \<Longrightarrow> calculateSubtotal items = Inr (total_cart items)"
  by (simp add: calculateSubtotal_def total_cart_def calculateSubtotal_from_foldl)

theorem subtotals_agree_witness:
  "list_all plainly_priced [line 1 7 3 10 (Some 8), line 2 9 2 50 None]
   \<and> calculateSubtotal [line 1 7 3 10 (Some 8), line 2 9 2 50 None] = Inr 124
   \<and> total_cart [line 1 7 3 10 (Some 8), line 2 9 2 50 None] = 124"
proof -
  have h: "list_all plainly_priced [line 1 7 3 10 (Some 8), line 2 9 2 50 None]"
    by (simp add: plainly_priced_def line_def)
  have t: "total_cart [line 1 7 3 10 (Some 8), line 2 9 2 50 None] = 124"
    by (simp add: total_cart_def line_def)
  from subtotals_agree[OF h] h t show ?thesis by simp
qed

section \<open>Discount percentage\<close>

subsection \<open>Rounding to the nearest double\<close>




















subsection \<open>The percentage\<close>




section \<open>The cart store\<close>

subsection \<open>Setting a quantity below 1\<close>

text \<open>
  Claim C4. Setting a quantity of 0 or less does nothing: \<open>updateQuantity\<close> of the
  provider returns without throwing, sends no request and leaves the list as it is, and so
  does \<open>updateQuantity\<close> of the cart page, whose whole state stays as it is.
\<close>

theorem updateQuantity_below_one:
  "quantity' < 1 \<Longrightarrow>
   updateQuantity r user items productId quantity'
     = \<lparr>result = Inr (), items_after = items, requests = []\<rparr>
   \<and> Cart_updateQuantity r s itemId quantity' = (s, [])"
  by (simp add: updateQuantity_def Cart_updateQuantity_def split: option.splits)

theorem updateQuantity_below_one_witness:
  "(0::int) < 1 \<and> (- 3::int) < 1
   \<and> updateQuantity offline_remote (Some ''u'') [line 1 7 2 10 None] 7 0
       = \<lparr>result = Inr (), items_after = [line 1 7 2 10 None], requests = []\<rparr>
   \<and> Cart_updateQuantity offline_remote
        \<lparr>cartItems = [line 1 7 2 10 None], loading = False, error = None, processing = False\<rparr>
        1 (- 3)
       = (\<lparr>cartItems = [line 1 7 2 10 None], loading = False, error = None,
           processing = False\<rparr>, [])"
  using updateQuantity_below_one[of 0 offline_remote "Some ''u''" "[line 1 7 2 10 None]" 7]
    updateQuantity_below_one[of "- 3" offline_remote _ _ _
      "\<lparr>cartItems = [line 1 7 2 10 None], loading = False, error = None, processing = False\<rparr>" 1]
  by simp

subsection \<open>A failed write\<close>

lemma updateQuantity_write_failure:
  "req \<in> set (requests (updateQuantity r user items productId q)) \<Longrightarrow>
   write_error r req = Some e \<Longrightarrow>
   result (updateQuantity r user items productId q) = Inl (PostgrestError e)
   \<and> items_after (updateQuantity r user items productId q) = items"
  by (auto simp: updateQuantity_def split: option.splits if_splits)

text \<open>Whatever \<open>addToCart\<close> throws, the list is as before.\<close>

lemma addToCart_thrown_unchanged:
  "result (addToCart r user items productId q) = Inl err \<Longrightarrow>
   items_after (addToCart r user items productId q) = items"
  unfolding addToCart_def addToCart_render_def updateQuantity_def
  by (auto split: option.splits if_splits prod.splits)

text \<open>
  Claim C3. If a write that \<open>addToCart\<close> sends (the insert of the new line, or the update of
  the existing one) is answered with an error, the call throws that error to its caller
  and the list of lines is exactly the one before the call.
\<close>

theorem addToCart_write_failure:
  "req \<in> set (requests (addToCart r user items productId q)) \<Longrightarrow>
   write_error r req = Some e \<Longrightarrow>
   result (addToCart r user items productId q) = Inl (PostgrestError e)
   \<and> items_after (addToCart r user items productId q) = items"
  unfolding addToCart_def addToCart_render_def
  by (auto simp: updateQuantity_write_failure split: option.splits if_splits prod.splits)

theorem addToCart_write_failure_witness:
  "InsertCartItem ''u'' 7 2 \<in> set (requests (addToCart offline_remote (Some ''u'') [] 7 2))
   \<and> write_error offline_remote (InsertCartItem ''u'' 7 2) = Some ''Failed to fetch''
   \<and> result (addToCart offline_remote (Some ''u'') [] 7 2)
       = Inl (PostgrestError ''Failed to fetch'')
   \<and> items_after (addToCart offline_remote (Some ''u'') [] 7 2) = []"
proof -
  have a: "InsertCartItem ''u'' 7 2 \<in> set (requests (addToCart offline_remote (Some ''u'') [] 7 2))"
    by (simp add: addToCart_def addToCart_render_def offline_remote_def)
  have b: "write_error offline_remote (InsertCartItem ''u'' 7 2) = Some ''Failed to fetch''"
    by (simp add: offline_remote_def)
  from addToCart_write_failure[OF a b] a b show ?thesis by simp
qed

subsection \<open>Removing a line\<close>

text \<open>
  Claim C8. For a signed-in user and a remote that carries out the delete:
  \<open>removeFromCart\<close> on a cart whose only line is for the product leaves the empty list.
  For a product without a line in the cart the list stays as it is, whatever the remote
  answers, and nothing is thrown when the remote reports no error.
\<close>

theorem removeFromCart_cases:
  "(delete_cart_item r u productId = None \<and> product_id item = productId \<longrightarrow>
      removeFromCart r (Some u) [item] productId
        = \<lparr>result = Inr (), items_after = [], requests = [DeleteCartItem u productId]\<rparr>)
   \<and> (productId \<notin> product_id ` set items \<longrightarrow>
        items_after (removeFromCart r user items productId) = items
        \<and> (user = None \<or> (\<exists>u. user = Some u \<and> delete_cart_item r u productId = None) \<longrightarrow>
             result (removeFromCart r user items productId) = Inr ()))"
  by (auto simp: removeFromCart_def filter_id_conv split: option.splits)

theorem removeFromCart_cases_witness:
  "delete_cart_item ok_remote ''u'' 7 = None \<and> product_id (line 1 7 2 10 None) = 7
   \<and> removeFromCart ok_remote (Some ''u'') [line 1 7 2 10 None] 7
        = \<lparr>result = Inr (), items_after = [], requests = [DeleteCartItem ''u'' 7]\<rparr>
   \<and> 9 \<notin> product_id ` set [line 1 7 2 10 None]
   \<and> items_after (removeFromCart ok_remote (Some ''u'') [line 1 7 2 10 None] 9)
        = [line 1 7 2 10 None]
   \<and> result (removeFromCart ok_remote (Some ''u'') [line 1 7 2 10 None] 9) = Inr ()"
proof -
  have a: "delete_cart_item ok_remote ''u'' 7 = None" "delete_cart_item ok_remote ''u'' 9 = None"
    by (simp_all add: ok_remote_def)
  have b: "product_id (line 1 7 2 10 None) = 7" by (simp add: line_def)
  have c: "9 \<notin> product_id ` set [line 1 7 2 10 None]" by (simp add: line_def)
  from removeFromCart_cases[of ok_remote "''u''" 7 "line 1 7 2 10 None"]
    removeFromCart_cases[of ok_remote "''u''" 9 _ "[line 1 7 2 10 None]" "Some ''u''"] a b c
  show ?thesis by simp
qed

subsection \<open>Adding the same product twice\<close>

lemma find_product_None:
  "find (\<lambda>item. product_id item = productId) items = None
     \<longleftrightarrow> productId \<notin> product_id ` set items"
  by (auto simp: find_None_iff)

lemma find_snoc:
  "find P (xs @ [y])
     = (case find P xs of None \<Rightarrow> (if P y then Some y else None) | Some x \<Rightarrow> Some x)"
  by (induction xs) simp_all

lemma addToCart_new_line:
  assumes "productId \<notin> product_id ` set items"
    and "select_product r productId = (Some p, None)"
    and "insert_cart_item r u productId q = (Some row, None)"
  shows "addToCart r (Some u) items productId q
           = \<lparr>result = Inr (), items_after = items @ [row\<lparr>product := Some p\<rparr>],
              requests = [SelectProduct productId, InsertCartItem u productId q]\<rparr>"
  using assms by (simp add: addToCart_def addToCart_render_def find_product_None[symmetric])

lemma addToCart_existing_line:
  assumes "find (\<lambda>item. product_id item = productId) items = Some x"
  shows "addToCart r (Some u) items productId q
           = updateQuantity r (Some u) items productId (quantity x + q)"
  using assms by (simp add: addToCart_def addToCart_render_def)

text \<open>
  Claim C2. A signed-in user adds \<open>q1 \<ge> 1\<close> and then \<open>q2 \<ge> 1\<close> of a product that has no
  line yet; the remote carries out the requests and returns the inserted row as it was
  sent. Then both calls return normally, the cart has exactly one line for the product,
  its quantity is \<open>q1 + q2\<close>, and the second call sends one request, the update of the
  quantity, and no insert.
\<close>

theorem addToCart_twice:
  assumes "1 \<le> q1" and "1 \<le> q2"
    and "productId \<notin> product_id ` set items"
    and "select_product r1 productId = (Some p, None)"
    and "insert_cart_item r1 u productId q1 = (Some row, None)"
    and "product_id row = productId" and "quantity row = q1"
    and "update_cart_item r2 u productId (q1 + q2) = None"
  shows "let first = addToCart r1 (Some u) items productId q1;
             second = addToCart r2 (Some u) (items_after first) productId q2
         in result first = Inr () \<and> result second = Inr ()
            \<and> filter (\<lambda>item. product_id item = productId) (items_after second)
                = [row\<lparr>product := Some p, quantity := q1 + q2\<rparr>]
            \<and> requests second = [UpdateCartItem u productId (q1 + q2)]"
proof -
  let ?new = "row\<lparr>product := Some p\<rparr>"
  have first: "addToCart r1 (Some u) items productId q1
           = \<lparr>result = Inr (), items_after = items @ [?new],
              requests = [SelectProduct productId, InsertCartItem u productId q1]\<rparr>"
    using assms(3,4,5) by (rule addToCart_new_line)
  have nf: "find (\<lambda>item. product_id item = productId) items = None"
    using assms(3) by (simp add: find_product_None)
  have found: "find (\<lambda>item. product_id item = productId) (items @ [?new]) = Some ?new"
    using nf assms(6) by (simp add: find_snoc)
  have second: "addToCart r2 (Some u) (items @ [?new]) productId q2
           = updateQuantity r2 (Some u) (items @ [?new]) productId (q1 + q2)"
    using addToCart_existing_line[OF found] assms(7) by simp
  have nofilter: "filter (\<lambda>item. product_id item = productId) items = []"
    using assms(3) by (auto simp: filter_empty_conv)
  have keep: "map (\<lambda>item. if product_id item = productId
                           then item\<lparr>quantity := q1 + q2\<rparr> else item) items = items"
    using assms(3) by (induction items) auto
  have upd: "updateQuantity r2 (Some u) (items @ [?new]) productId (q1 + q2)
        = \<lparr>result = Inr (), items_after = items @ [?new\<lparr>quantity := q1 + q2\<rparr>],
           requests = [UpdateCartItem u productId (q1 + q2)]\<rparr>"
    using assms(1,2,6,8) keep by (simp add: updateQuantity_def)
  show ?thesis
    using first second upd nofilter assms(6) by (simp add: Let_def)
qed

theorem addToCart_twice_witness:
  "(1::int) \<le> 2 \<and> (1::int) \<le> 3
   \<and> 7 \<notin> product_id ` set [line 4 9 1 50 None]
   \<and> select_product ok_remote 7 = (Some lamp, None)
   \<and> insert_cart_item ok_remote ''u'' 7 2
        = (Some \<lparr>id_item = 1, product_id = 7, quantity = 2, product = None\<rparr>, None)
   \<and> update_cart_item ok_remote ''u'' 7 (2 + 3) = None
   \<and> (let first = addToCart ok_remote (Some ''u'') [line 4 9 1 50 None] 7 2;
           second = addToCart ok_remote (Some ''u'') (items_after first) 7 3
       in result first = Inr () \<and> result second = Inr ()
          \<and> filter (\<lambda>item. product_id item = 7) (items_after second)
               = [\<lparr>id_item = 1, product_id = 7, quantity = 5, product = Some lamp\<rparr>]
          \<and> requests second = [UpdateCartItem ''u'' 7 5])"
proof -
  have "lamp\<lparr>id_product := 7\<rparr> = lamp" by (simp add: lamp_def)
  then show ?thesis
    using addToCart_twice[of 2 3 7 "[line 4 9 1 50 None]" ok_remote "lamp" "''u''"
        "\<lparr>id_item = 1, product_id = 7, quantity = 2, product = None\<rparr>" ok_remote]
    by (simp add: ok_remote_def line_def)
qed

subsection \<open>Quantities of at least 1\<close>








subsection \<open>One line per product\<close>

lemma updateQuantity_product_ids:
  "map product_id (items_after (updateQuantity r user items productId q)) = map product_id items"
  by (auto simp: updateQuantity_def split: option.splits)

lemma addToCart_render_one_line:
  assumes "one_line_per_product prev" and "insert_echoes r user productId q"
    and "productId \<in> product_id ` set prev \<longrightarrow> productId \<in> product_id ` set items"
  shows "one_line_per_product (items_after (addToCart_render r user items prev productId q))"
proof (cases "find (\<lambda>item. product_id item = productId) items")
  case None
  then have "productId \<notin> product_id ` set items" by (simp add: find_product_None)
  with assms(3) have "productId \<notin> product_id ` set prev" by blast
  with None assms(1,2) show ?thesis
    by (auto simp: addToCart_render_def insert_echoes_def one_line_per_product_def
             split: option.splits prod.splits)
next
  case (Some x)
  then show ?thesis
    using assms(1)
    by (cases user)
       (simp_all add: addToCart_render_def one_line_per_product_def updateQuantity_product_ids)
qed

lemma fetchCartItems_one_line:
  assumes "one_line_per_product prev" and "rows_one_per_product r u"
  shows "one_line_per_product (items_after (fetchCartItems r u prev))"
proof (cases "select_cart_items r u")
  case (Pair data err)
  show ?thesis
  proof (cases err)
    case (Some e)
    with Pair assms(1) show ?thesis by (simp add: fetchCartItems_def)
  next
    case None
    show ?thesis
    proof (cases data)
      case None
      with Pair \<open>err = None\<close> show ?thesis
        by (simp add: fetchCartItems_def one_line_per_product_def)
    next
      case (Some rows)
      with Pair assms(2) have "distinct (map product_id_row rows)"
        by (simp add: rows_one_per_product_def)
      then have "distinct (map product_id
          (filter (\<lambda>item. product item \<noteq> None)
            (map (\<lambda>row. \<lparr>id_item = id_row row, product_id = product_id_row row,
                          quantity = quantity_row row,
                          product = (case products row of [] \<Rightarrow> None | p # ps \<Rightarrow> Some p)\<rparr>)
               rows)))"
        by (intro distinct_map_filter) (simp add: comp_def)
      with Pair Some \<open>err = None\<close> show ?thesis
        by (simp add: fetchCartItems_def one_line_per_product_def)
    qed
  qed
qed

text \<open>
  Claim C6, as stated: every operation keeps at most one line per product, in every
  reachable state. Loading installs the rows of the remote as they are, and the table
  admits two rows for one product; and two calls of \<open>addToCart\<close> for one product from the
  same render, the cart being empty, both find no line and both append one.
\<close>

theorem one_line_per_product_broken:
  "one_line_per_product []
   \<and> \<not> one_line_per_product (items_after (fetchCartItems doubled_remote ''u'' []))
   \<and> insert_echoes ok_remote (Some ''u'') 7 1
   \<and> \<not> one_line_per_product
         (items_after
            (addToCart_render ok_remote (Some ''u'') []
               (items_after (addToCart_render ok_remote (Some ''u'') [] [] 7 1)) 7 1))"
  by (simp add: one_line_per_product_def fetchCartItems_def doubled_remote_def ok_remote_def
        addToCart_render_def insert_echoes_def)

text \<open>
  Claim C6, amended. From a local list with at most one line per product,
  \<open>updateQuantity\<close>, \<open>removeFromCart\<close> and \<open>clearCart\<close> lead to such a list again;
  \<open>addToCart\<close> does when the list it reads has a line for the product whenever the
  current list has one (as in every call that has seen the current state) and the remote
  returns the inserted row as it was sent; and loading does when the rows the remote
  returns are for pairwise different products.
\<close>

theorem one_line_per_product_kept:
  "one_line_per_product prev \<Longrightarrow>
   (insert_echoes r user productId q
      \<and> (productId \<in> product_id ` set prev \<longrightarrow> productId \<in> product_id ` set items) \<longrightarrow>
      one_line_per_product (items_after (addToCart_render r user items prev productId q)))
   \<and> (insert_echoes r user productId q \<longrightarrow>
        one_line_per_product (items_after (addToCart r user prev productId q)))
   \<and> one_line_per_product (items_after (updateQuantity r user prev productId q))
   \<and> one_line_per_product (items_after (removeFromCart r user prev productId))
   \<and> one_line_per_product (items_after (clearCart r user prev))
   \<and> (rows_one_per_product r u \<longrightarrow>
        one_line_per_product (items_after (fetchCartItems r u prev)))"
proof (intro conjI impI)
  assume inv: "one_line_per_product prev"
  show "one_line_per_product (items_after (addToCart_render r user items prev productId q))"
    if "insert_echoes r user productId q
        \<and> (productId \<in> product_id ` set prev \<longrightarrow> productId \<in> product_id ` set items)"
    using inv that by (simp add: addToCart_render_one_line)
  show "one_line_per_product (items_after (addToCart r user prev productId q))"
    if "insert_echoes r user productId q"
    using inv that by (simp add: addToCart_def addToCart_render_one_line)
  show "one_line_per_product (items_after (updateQuantity r user prev productId q))"
    using inv by (simp add: one_line_per_product_def updateQuantity_product_ids)
  show "one_line_per_product (items_after (removeFromCart r user prev productId))"
    using inv
    by (auto simp: one_line_per_product_def removeFromCart_def distinct_map_filter
             split: option.splits)
  show "one_line_per_product (items_after (clearCart r user prev))"
    using inv by (auto simp: one_line_per_product_def clearCart_def split: option.splits)
  show "one_line_per_product (items_after (fetchCartItems r u prev))"
    if "rows_one_per_product r u"
    using inv that by (rule fetchCartItems_one_line)
qed

theorem one_line_per_product_kept_witness:
  "one_line_per_product [line 4 9 1 50 None]
   \<and> insert_echoes ok_remote (Some ''u'') 7 2
   \<and> 7 \<notin> product_id ` set [line 4 9 1 50 None]
   \<and> rows_one_per_product ok_remote ''u''
   \<and> one_line_per_product
        (items_after (addToCart_render ok_remote (Some ''u'') [] [line 4 9 1 50 None] 7 2))
   \<and> one_line_per_product (items_after (addToCart ok_remote (Some ''u'') [line 4 9 1 50 None] 7 2))
   \<and> map product_id (items_after (addToCart ok_remote (Some ''u'') [line 4 9 1 50 None] 7 2))
        = [9, 7]
   \<and> map product_id (items_after (addToCart ok_remote (Some ''u'') [line 4 9 1 50 None] 9 2))
        = [9]
   \<and> one_line_per_product (items_after (fetchCartItems ok_remote ''u'' [line 4 9 1 50 None]))"
proof -
  have inv: "one_line_per_product [line 4 9 1 50 None]"
    by (simp add: one_line_per_product_def line_def)
  have echo: "insert_echoes ok_remote (Some ''u'') 7 2"
    by (simp add: insert_echoes_def ok_remote_def)
  have seen: "7 \<notin> product_id ` set [line 4 9 1 50 None]"
    by (simp add: line_def)
  have rows: "rows_one_per_product ok_remote ''u''"
    by (simp add: rows_one_per_product_def ok_remote_def)
  have ids: "map product_id (items_after (addToCart ok_remote (Some ''u'') [line 4 9 1 50 None] 7 2)) = [9, 7]"
    "map product_id (items_after (addToCart ok_remote (Some ''u'') [line 4 9 1 50 None] 9 2)) = [9]"
    by (simp_all add: addToCart_def addToCart_render_def updateQuantity_def ok_remote_def line_def)
  from one_line_per_product_kept[OF inv, of ok_remote "Some ''u''" 7 2 "[]" "''u''"]
    inv echo seen rows ids
  show ?thesis by simp
qed

end
